theory Spec2Isabelle
  imports Complex_Main "HOL-Library.Multiset"
begin

section \<open>The synthetic cohort generator of the SHAP notebook\<close>

text \<open>
  The notebook \<^verbatim>\<open>notebooks/shap-complete.ipynb\<close> builds a table of vital signs with
  \<^verbatim>\<open>generate_healthy\<close> and \<^verbatim>\<open>generate_infected\<close>, concatenates the two tables and
  splits the result into a training and a test set. This theory embeds that code.

  Conventions of the embedding:
  \<^item> Python floats are modelled as \<^typ>\<open>real\<close>; no theorem below relies on an algebraic
    law that floating-point arithmetic lacks, every equation is the expression the code
    evaluates.
  \<^item> A Python exception is an \<open>error\<close> value; a computation that touches the global
    generator of \<^verbatim>\<open>np.random\<close> takes the generator state and returns the state it
    leaves behind together with its result or its exception.
\<close>

subsection \<open>Exceptions and the global generator\<close>

datatype error =
    ValueError  \<comment> \<open>numpy, pandas: bad size, bad scale, mismatching shapes; the
                   specification calls it \<^verbatim>\<open>InvalidArgument\<close> and \<^verbatim>\<open>ShapeMismatch\<close>\<close>
  | KeyError    \<comment> \<open>pandas: no column of that name\<close>
  | Unsupported \<comment> \<open>not an exception: library behaviour left out of this model\<close>

text \<open>
  The state of the global generator is the sequence of standard normal deviates it will
  hand out from now on: \<^verbatim>\<open>np.random.normal(loc, scale, size)\<close> returns
  \<^verbatim>\<open>loc + scale * z\<close> for the next \<^verbatim>\<open>size\<close> deviates \<^verbatim>\<open>z\<close>, whatever \<^verbatim>\<open>loc\<close> and
  \<^verbatim>\<open>scale\<close> are.
\<close>

type_synonym rng = "nat \<Rightarrow> real"

type_synonym 'a np = "rng \<Rightarrow> (error + 'a) \<times> rng"

definition skip :: "nat \<Rightarrow> rng \<Rightarrow> rng" where
  "skip k g = (\<lambda>i. g (i + k))"

definition and_then :: "'a np \<Rightarrow> ('a \<Rightarrow> 'b np) \<Rightarrow> 'b np" where
  "and_then m f g =
     (case m g of
        (Inl e, g') \<Rightarrow> (Inl e, g')
      | (Inr x, g') \<Rightarrow> f x g')"

definition raise_or :: "error + 'a \<Rightarrow> 'a np" where
  "raise_or r g = (r, g)"

subsection \<open>The numpy and pandas calls the generator makes\<close>

definition normal_draws :: "real \<Rightarrow> real \<Rightarrow> nat \<Rightarrow> rng \<Rightarrow> real list" where
  "normal_draws loc scale n g = map (\<lambda>i. loc + scale * g i) [0..<n]"

definition np_random_normal :: "real \<Rightarrow> real \<Rightarrow> int \<Rightarrow> real list np" where
  \<comment> \<open>a negative scale or a negative size raises before any deviate is taken\<close>
  "np_random_normal loc scale sz g =
     (if scale < 0 \<or> sz < 0 then (Inl ValueError, g)
      else (Inr (normal_draws loc scale (nat sz) g), skip (nat sz) g))"

definition np_multiply :: "real list \<Rightarrow> real list \<Rightarrow> real list" where
  \<comment> \<open>\<^verbatim>\<open>a * b\<close> on two arrays of one shape\<close>
  "np_multiply a b = map2 (*) a b"

definition np_add :: "real list \<Rightarrow> real list \<Rightarrow> real list" where
  \<comment> \<open>\<^verbatim>\<open>a + b\<close> on two arrays of one shape\<close>
  "np_add a b = map2 (+) a b"

definition np_zeros :: "int \<Rightarrow> error + real list" where
  "np_zeros n = (if n < 0 then Inl ValueError else Inr (replicate (nat n) 0))"

definition np_ones :: "int \<Rightarrow> error + real list" where
  "np_ones n = (if n < 0 then Inl ValueError else Inr (replicate (nat n) 1))"

record ndarray2 =
  nrows :: nat
  ncols :: nat
  rows :: "real list list"

definition np_stack_axis1 :: "real list list \<Rightarrow> error + ndarray2" where
  \<comment> \<open>\<^verbatim>\<open>np.stack(arrays, axis=1)\<close> on one-dimensional arrays: array \<open>j\<close> becomes column \<open>j\<close>\<close>
  "np_stack_axis1 arrays =
     (case arrays of
        [] \<Rightarrow> Inl ValueError
      | a # _ \<Rightarrow>
          if list_ex (\<lambda>b. length b \<noteq> length a) arrays then Inl ValueError
          else Inr \<lparr>nrows = length a, ncols = length arrays,
                    rows = map (\<lambda>i. map (\<lambda>b. b ! i) arrays) [0..<length a]\<rparr>)"

record dataframe =
  df_columns :: "string list"
  df_index :: "nat list"
  df_values :: "real list list"

definition pd_DataFrame :: "ndarray2 \<Rightarrow> string list \<Rightarrow> error + dataframe" where
  \<comment> \<open>\<^verbatim>\<open>pd.DataFrame(array, columns=names)\<close>: the index is \<^verbatim>\<open>RangeIndex(nrows)\<close>\<close>
  "pd_DataFrame arr names =
     (if length names \<noteq> ncols arr then Inl ValueError
      else Inr \<lparr>df_columns = names, df_index = [0..<nrows arr], df_values = rows arr\<rparr>)"

fun column_position :: "string list \<Rightarrow> string \<Rightarrow> nat option" where
  "column_position [] name = None"
| "column_position (c # cs) name =
     (if c = name then Some 0 else map_option Suc (column_position cs name))"

definition getitem_values :: "dataframe \<Rightarrow> string \<Rightarrow> error + real list" where
  \<comment> \<open>\<^verbatim>\<open>df[name].values\<close>\<close>
  "getitem_values df name =
     (case column_position (df_columns df) name of
        None \<Rightarrow> Inl KeyError
      | Some j \<Rightarrow> Inr (map (\<lambda>r. r ! j) (df_values df)))"

subsection \<open>The constants of the generator\<close>

definition SYSTOLIC_PRESSURE :: real where "SYSTOLIC_PRESSURE = 105"
definition SYSTOLIC_PRESSURE_STD :: real where "SYSTOLIC_PRESSURE_STD = 10"
definition SYSTOLIC_TO_DIASTOLIC_FACTOR :: real where "SYSTOLIC_TO_DIASTOLIC_FACTOR = 2 / 3"
definition SYSTOLIC_TO_DIASTOLIC_FACTOR_STD :: real where "SYSTOLIC_TO_DIASTOLIC_FACTOR_STD = 0.01"

definition MEAN_BODY_TEMP :: real where "MEAN_BODY_TEMP = 36.7"
definition MEAN_BODY_TEMP_STD :: real where "MEAN_BODY_TEMP_STD = 0.05"
definition BODY_TEMP_NOISE :: real where "BODY_TEMP_NOISE = 0"
definition BODY_TEMP_NOISE_STD :: real where "BODY_TEMP_NOISE_STD = 0.01"

definition MEAN_RESPIRATION_RATE :: real where "MEAN_RESPIRATION_RATE = 14"
definition MEAN_RESPIRATION_RATE_STD :: real where "MEAN_RESPIRATION_RATE_STD = 0.8"
definition RESPIRATION_RATE_NOISE :: real where "RESPIRATION_RATE_NOISE = 0"
definition RESPIRATION_RATE_NOISE_STD :: real where "RESPIRATION_RATE_NOISE_STD = 0.5"
definition RESPIRATION_RATE_NOISE_INFECTED :: real where "RESPIRATION_RATE_NOISE_INFECTED = 1.5"
definition RESPIRATION_RATE_NOISE_STD_INFECTED :: real where "RESPIRATION_RATE_NOISE_STD_INFECTED = 0.4"

definition RESPIRATION_TO_PULSE_FACTOR :: real where "RESPIRATION_TO_PULSE_FACTOR = 5.5"
definition RESPIRATION_TO_PULSE_FACTOR_NOISE :: real where "RESPIRATION_TO_PULSE_FACTOR_NOISE = 0.2"
definition PULSE_RATE_NOISE :: real where "PULSE_RATE_NOISE = 0"
definition PULSE_RATE_NOISE_STD :: real where "PULSE_RATE_NOISE_STD = 4"
definition PULSE_RATE_NOISE_INFECTED :: real where "PULSE_RATE_NOISE_INFECTED = 10"
definition PULSE_RATE_NOISE_STD_INFECTED :: real where "PULSE_RATE_NOISE_STD_INFECTED = 5"

definition COLUMN_NAMES :: "string list" where
  "COLUMN_NAMES =
     [''systolic_pressure'', ''diastolic_pressure'',
      ''daily_avg_body_temperature'', ''body_temperature'',
      ''daily_avg_respiration_rate'', ''respiration_rate'',
      ''daily_avg_pulse_rate'', ''pulse_rate'',
      ''infection'']"

subsection \<open>The two generation routines\<close>

definition generate_healthy :: "int \<Rightarrow> dataframe np" where
  "generate_healthy n_patients =
     and_then (np_random_normal SYSTOLIC_PRESSURE SYSTOLIC_PRESSURE_STD n_patients)
       (\<lambda>systolic_pressure.
     and_then (np_random_normal SYSTOLIC_TO_DIASTOLIC_FACTOR SYSTOLIC_TO_DIASTOLIC_FACTOR_STD
                 n_patients)
       (\<lambda>ratio. let diastolic_pressure = np_multiply systolic_pressure ratio in
     and_then (np_random_normal MEAN_BODY_TEMP MEAN_BODY_TEMP_STD n_patients)
       (\<lambda>daily_avg_body_temperature.
     and_then (np_random_normal BODY_TEMP_NOISE BODY_TEMP_NOISE_STD n_patients)
       (\<lambda>temp_noise.
          let body_temperature = np_add daily_avg_body_temperature temp_noise in
     and_then (np_random_normal MEAN_RESPIRATION_RATE MEAN_RESPIRATION_RATE_STD n_patients)
       (\<lambda>daily_avg_respiration_rate.
     and_then (np_random_normal RESPIRATION_RATE_NOISE RESPIRATION_RATE_NOISE_STD n_patients)
       (\<lambda>resp_noise.
          let respiration_rate = np_add daily_avg_respiration_rate resp_noise in
     and_then (np_random_normal RESPIRATION_TO_PULSE_FACTOR RESPIRATION_TO_PULSE_FACTOR_NOISE
                 n_patients)
       (\<lambda>factor.
          let daily_avg_pulse_rate = np_multiply daily_avg_respiration_rate factor in
     and_then (np_random_normal PULSE_RATE_NOISE PULSE_RATE_NOISE_STD n_patients)
       (\<lambda>pulse_noise.
          let pulse_rate = np_add daily_avg_pulse_rate pulse_noise in
     and_then (raise_or (np_zeros n_patients))
       (\<lambda>infection.
     and_then (raise_or (np_stack_axis1
                 [systolic_pressure, diastolic_pressure,
                  daily_avg_body_temperature, body_temperature,
                  daily_avg_respiration_rate, respiration_rate,
                  daily_avg_pulse_rate, pulse_rate,
                  infection]))
       (\<lambda>stacked. raise_or (pd_DataFrame stacked COLUMN_NAMES)))))))))))"

definition generate_infected :: "int \<Rightarrow> dataframe np" where
  "generate_infected n_patients =
     and_then (np_random_normal SYSTOLIC_PRESSURE SYSTOLIC_PRESSURE_STD n_patients)
       (\<lambda>systolic_pressure.
     and_then (np_random_normal SYSTOLIC_TO_DIASTOLIC_FACTOR SYSTOLIC_TO_DIASTOLIC_FACTOR_STD
                 n_patients)
       (\<lambda>ratio. let diastolic_pressure = np_multiply systolic_pressure ratio in
     and_then (np_random_normal MEAN_BODY_TEMP MEAN_BODY_TEMP_STD n_patients)
       (\<lambda>daily_avg_body_temperature.
     and_then (np_random_normal BODY_TEMP_NOISE BODY_TEMP_NOISE_STD n_patients)
       (\<lambda>temp_noise.
          let body_temperature = np_add daily_avg_body_temperature temp_noise in
     and_then (np_random_normal MEAN_RESPIRATION_RATE MEAN_RESPIRATION_RATE_STD n_patients)
       (\<lambda>daily_avg_respiration_rate.
     and_then (np_random_normal RESPIRATION_RATE_NOISE_INFECTED
                 RESPIRATION_RATE_NOISE_STD_INFECTED n_patients)
       (\<lambda>resp_noise.
          let respiration_rate = np_add daily_avg_respiration_rate resp_noise in
     and_then (np_random_normal RESPIRATION_TO_PULSE_FACTOR RESPIRATION_TO_PULSE_FACTOR_NOISE
                 n_patients)
       (\<lambda>factor.
          let daily_avg_pulse_rate = np_multiply daily_avg_respiration_rate factor in
     and_then (np_random_normal PULSE_RATE_NOISE_INFECTED PULSE_RATE_NOISE_STD_INFECTED
                 n_patients)
       (\<lambda>pulse_noise.
          let pulse_rate = np_add daily_avg_pulse_rate pulse_noise in
     and_then (raise_or (np_ones n_patients))
       (\<lambda>infection.
     and_then (raise_or (np_stack_axis1
                 [systolic_pressure, diastolic_pressure,
                  daily_avg_body_temperature, body_temperature,
                  daily_avg_respiration_rate, respiration_rate,
                  daily_avg_pulse_rate, pulse_rate,
                  infection]))
       (\<lambda>stacked. raise_or (pd_DataFrame stacked COLUMN_NAMES)))))))))))"

text \<open>
  The specification calls the pair of routines \<^verbatim>\<open>generate_cohort(n_records, is_infected)\<close>:
  the flag selects the routine, and nothing else is added here.
\<close>

definition generate_cohort :: "int \<Rightarrow> bool \<Rightarrow> dataframe np" where
  "generate_cohort n_records is_infected =
     (if is_infected then generate_infected n_records else generate_healthy n_records)"

subsection \<open>Building the dataset\<close>

definition pd_concat :: "dataframe \<Rightarrow> dataframe \<Rightarrow> error + dataframe" where
  \<comment> \<open>\<^verbatim>\<open>pd.concat((a, b))\<close>: the rows of \<open>a\<close>, then the rows of \<open>b\<close>, each with its own
      index label. Frames with different columns are aligned by pandas with \<^verbatim>\<open>NaN\<close>
      cells, which is left out here.\<close>
  "pd_concat a b =
     (if df_columns a = df_columns b
      then Inr \<lparr>df_columns = df_columns a, df_index = df_index a @ df_index b,
                df_values = df_values a @ df_values b\<rparr>
      else Inl Unsupported)"

definition reset_index_drop :: "dataframe \<Rightarrow> dataframe" where
  \<comment> \<open>\<^verbatim>\<open>df.reset_index(drop=True)\<close>\<close>
  "reset_index_drop df = df\<lparr>df_index := [0..<length (df_values df)]\<rparr>"

definition drop_column :: "dataframe \<Rightarrow> string \<Rightarrow> error + dataframe" where
  \<comment> \<open>\<^verbatim>\<open>df.drop(name, axis=1)\<close>: every column of that name goes, the rows stay in place\<close>
  "drop_column df name =
     (if name \<notin> set (df_columns df) then Inl KeyError
      else Inr \<lparr>df_columns = filter (\<lambda>c. c \<noteq> name) (df_columns df),
                df_index = df_index df,
                df_values =
                  map (\<lambda>r. map snd (filter (\<lambda>(c, v). c \<noteq> name) (zip (df_columns df) r)))
                    (df_values df)\<rparr>)"

text \<open>
  The cell that builds the data, with the two counts (900 and 100 in the notebook) as
  parameters: the two cohorts, their concatenation, and the two arguments handed to the
  split, \<^verbatim>\<open>data.drop("infection", axis=1)\<close> and \<^verbatim>\<open>data["infection"].values\<close>.
\<close>

definition build_dataset :: "int \<Rightarrow> int \<Rightarrow> (dataframe \<times> real list) np" where
  "build_dataset n_healthy n_infected =
     and_then (generate_healthy n_healthy) (\<lambda>healthy.
     and_then (generate_infected n_infected) (\<lambda>infected.
     and_then (raise_or (pd_concat healthy infected)) (\<lambda>both.
       let data = reset_index_drop both in
     and_then (raise_or (drop_column data ''infection'')) (\<lambda>features.
     and_then (raise_or (getitem_values data ''infection'')) (\<lambda>labels.
     raise_or (Inr (features, labels)))))))"

text \<open>
  \<^verbatim>\<open>np.random.seed(s)\<close> replaces the state of the global generator by the one that
  belongs to \<open>s\<close>. Which sequence of deviates belongs to a seed is the library's business
  and a parameter here.
\<close>

definition np_random_seed :: "(nat \<Rightarrow> rng) \<Rightarrow> nat \<Rightarrow> unit np" where
  "np_random_seed stream_of s g = (Inr (), stream_of s)"

definition seeded_dataset ::
    "(nat \<Rightarrow> rng) \<Rightarrow> nat \<Rightarrow> int \<Rightarrow> int \<Rightarrow> (dataframe \<times> real list) np" where
  \<comment> \<open>the notebook up to the split: seed once, then build\<close>
  "seeded_dataset stream_of s n_healthy n_infected =
     and_then (np_random_seed stream_of s) (\<lambda>_. build_dataset n_healthy n_infected)"

subsection \<open>The split\<close>

definition take_rows :: "dataframe \<Rightarrow> nat list \<Rightarrow> dataframe" where
  \<comment> \<open>the rows at the given positions, each with its index label\<close>
  "take_rows df idx =
     \<lparr>df_columns = df_columns df,
      df_index = map (\<lambda>k. df_index df ! k) idx,
      df_values = map (\<lambda>k. df_values df ! k) idx\<rparr>"

definition split_train_test ::
    "(nat \<Rightarrow> nat \<Rightarrow> nat list) \<Rightarrow> dataframe \<Rightarrow> real list \<Rightarrow> real \<Rightarrow> nat
       \<Rightarrow> error + (dataframe \<times> dataframe \<times> real list \<times> real list)" where
  \<comment> \<open>Modelled from the spec: the notebook calls \<^verbatim>\<open>train_test_split\<close> of scikit-learn,
      whose code is not part of the repository. The specification describes an index-based
      partition by a seeded shuffle with \<open>round (n * test_fraction)\<close> test rows and the
      remainder as training rows. The seeded shuffle of the row positions is the
      parameter \<open>shuffle\<close>; \<open>round\<close> rounds halves up.\<close>
  "split_train_test shuffle features labels test_fraction seed =
     (let n = length (df_values features) in
      if length labels \<noteq> n then Inl ValueError
      else if test_fraction < 0 \<or> 1 < test_fraction then Inl ValueError
      else
        let n_test = nat (round (real n * test_fraction));
            order = shuffle seed n;
            test_idx = take n_test order;
            train_idx = drop n_test order
        in Inr (take_rows features train_idx, take_rows features test_idx,
                map (\<lambda>k. labels ! k) train_idx, map (\<lambda>k. labels ! k) test_idx))"

subsection \<open>One routine with the regime as a parameter\<close>

text \<open>
  The specification describes the two routines as one, parametrised by the noise
  parameters of the regime and the label. This is that routine; it is compared with the
  two routines of the notebook below.
\<close>

record regime =
  resp_noise_mean :: real
  resp_noise_std :: real
  pulse_noise_mean :: real
  pulse_noise_std :: real
  label_value :: real

definition regime_of :: "bool \<Rightarrow> regime" where
  "regime_of is_infected =
     (if is_infected
      then \<lparr>resp_noise_mean = 1.5, resp_noise_std = 0.4,
            pulse_noise_mean = 10, pulse_noise_std = 5, label_value = 1\<rparr>
      else \<lparr>resp_noise_mean = 0, resp_noise_std = 0.5,
            pulse_noise_mean = 0, pulse_noise_std = 4, label_value = 0\<rparr>)"

definition np_full :: "int \<Rightarrow> real \<Rightarrow> error + real list" where
  "np_full n v = (if n < 0 then Inl ValueError else Inr (replicate (nat n) v))"

definition generate_with_regime :: "regime \<Rightarrow> int \<Rightarrow> dataframe np" where
  "generate_with_regime r n_records =
     and_then (np_random_normal 105 10 n_records) (\<lambda>systolic_pressure.
     and_then (np_random_normal (2 / 3) 0.01 n_records) (\<lambda>ratio.
     and_then (np_random_normal 36.7 0.05 n_records) (\<lambda>daily_avg_body_temperature.
     and_then (np_random_normal 0 0.01 n_records) (\<lambda>temp_noise.
     and_then (np_random_normal 14 0.8 n_records) (\<lambda>daily_avg_respiration_rate.
     and_then (np_random_normal (resp_noise_mean r) (resp_noise_std r) n_records) (\<lambda>resp_noise.
     and_then (np_random_normal 5.5 0.2 n_records) (\<lambda>factor.
     and_then (np_random_normal (pulse_noise_mean r) (pulse_noise_std r) n_records)
       (\<lambda>pulse_noise.
     and_then (raise_or (np_full n_records (label_value r))) (\<lambda>infection.
     and_then (raise_or (np_stack_axis1
                 [systolic_pressure, np_multiply systolic_pressure ratio,
                  daily_avg_body_temperature, np_add daily_avg_body_temperature temp_noise,
                  daily_avg_respiration_rate, np_add daily_avg_respiration_rate resp_noise,
                  np_multiply daily_avg_respiration_rate factor,
                  np_add (np_multiply daily_avg_respiration_rate factor) pulse_noise,
                  infection]))
       (\<lambda>stacked. raise_or (pd_DataFrame stacked COLUMN_NAMES)))))))))))"

subsection \<open>The table in closed form\<close>

text \<open>
  The nine arrays a generation routine stacks, as functions of the generator state on
  entry: call number \<open>k\<close> (from zero) of \<^verbatim>\<open>np.random.normal\<close> reads the deviates
  \<open>k * n, \<dots>, k * n + n - 1\<close>. The parameters are the two noise distributions and the label.
\<close>

definition cohort_arrays :: "real \<Rightarrow> real \<Rightarrow> real \<Rightarrow> real \<Rightarrow> real \<Rightarrow> nat \<Rightarrow> rng \<Rightarrow> real list list" where
  "cohort_arrays rm rs pm ps lab n g =
     (let systolic = normal_draws SYSTOLIC_PRESSURE SYSTOLIC_PRESSURE_STD n g;
          ratio = normal_draws SYSTOLIC_TO_DIASTOLIC_FACTOR SYSTOLIC_TO_DIASTOLIC_FACTOR_STD n
                    (skip n g);
          avg_temp = normal_draws MEAN_BODY_TEMP MEAN_BODY_TEMP_STD n (skip (2 * n) g);
          temp_noise = normal_draws BODY_TEMP_NOISE BODY_TEMP_NOISE_STD n (skip (3 * n) g);
          avg_resp = normal_draws MEAN_RESPIRATION_RATE MEAN_RESPIRATION_RATE_STD n
                       (skip (4 * n) g);
          resp_noise = normal_draws rm rs n (skip (5 * n) g);
          factor = normal_draws RESPIRATION_TO_PULSE_FACTOR RESPIRATION_TO_PULSE_FACTOR_NOISE n
                     (skip (6 * n) g);
          pulse_noise = normal_draws pm ps n (skip (7 * n) g)
      in [systolic, np_multiply systolic ratio,
          avg_temp, np_add avg_temp temp_noise,
          avg_resp, np_add avg_resp resp_noise,
          np_multiply avg_resp factor, np_add (np_multiply avg_resp factor) pulse_noise,
          replicate n lab])"

definition cohort_table :: "real \<Rightarrow> real \<Rightarrow> real \<Rightarrow> real \<Rightarrow> real \<Rightarrow> nat \<Rightarrow> rng \<Rightarrow> dataframe" where
  "cohort_table rm rs pm ps lab n g =
     \<lparr>df_columns = COLUMN_NAMES, df_index = [0..<n],
      df_values = map (\<lambda>i. map (\<lambda>b. b ! i) (cohort_arrays rm rs pm ps lab n g)) [0..<n]\<rparr>"

text \<open>The tables of the two routines.\<close>

definition healthy_table :: "nat \<Rightarrow> rng \<Rightarrow> dataframe" where
  "healthy_table n g =
     cohort_table RESPIRATION_RATE_NOISE RESPIRATION_RATE_NOISE_STD
       PULSE_RATE_NOISE PULSE_RATE_NOISE_STD 0 n g"

definition infected_table :: "nat \<Rightarrow> rng \<Rightarrow> dataframe" where
  "infected_table n g =
     cohort_table RESPIRATION_RATE_NOISE_INFECTED RESPIRATION_RATE_NOISE_STD_INFECTED
       PULSE_RATE_NOISE_INFECTED PULSE_RATE_NOISE_STD_INFECTED 1 n g"

text \<open>A table of a thousand rows without columns, as an input of the split.\<close>

definition thousand_rows :: dataframe where
  "thousand_rows = \<lparr>df_columns = [], df_index = [0..<1000], df_values = replicate 1000 []\<rparr>"

section \<open>Properties\<close>

subsection \<open>Running the generator\<close>

lemma skip_skip: "skip a (skip b g) = skip (a + b) g"
  by (simp add: skip_def fun_eq_iff ac_simps)

lemma skip_0: "skip 0 g = g"
  by (simp add: skip_def)

lemma length_normal_draws: "length (normal_draws loc scale n g) = n"
  by (simp add: normal_draws_def)

lemma length_np_multiply: "length (np_multiply a b) = min (length a) (length b)"
  by (simp add: np_multiply_def)

lemma length_np_add: "length (np_add a b) = min (length a) (length b)"
  by (simp add: np_add_def)

lemmas array_lengths = length_normal_draws length_np_multiply length_np_add

lemma and_then_normal:
  "0 \<le> scale \<Longrightarrow> 0 \<le> n \<Longrightarrow>
   and_then (np_random_normal loc scale n) f g =
     f (normal_draws loc scale (nat n) g) (skip (nat n) g)"
  by (simp add: and_then_def np_random_normal_def)

lemma and_then_raise_or: "and_then (raise_or (Inr x)) f g = f x g"
  by (simp add: and_then_def raise_or_def)

lemma np_stack_axis1_ok:
  "arrays \<noteq> [] \<Longrightarrow> list_all (\<lambda>b. length b = length (hd arrays)) arrays \<Longrightarrow>
   np_stack_axis1 arrays =
     Inr \<lparr>nrows = length (hd arrays), ncols = length arrays,
          rows = map (\<lambda>i. map (\<lambda>b. b ! i) arrays) [0..<length (hd arrays)]\<rparr>"
  by (cases arrays) (auto simp: np_stack_axis1_def list_ex_iff list_all_iff)

lemma std_nonneg:
  "0 \<le> SYSTOLIC_PRESSURE_STD" "0 \<le> SYSTOLIC_TO_DIASTOLIC_FACTOR_STD"
  "0 \<le> MEAN_BODY_TEMP_STD" "0 \<le> BODY_TEMP_NOISE_STD" "0 \<le> MEAN_RESPIRATION_RATE_STD"
  "0 \<le> RESPIRATION_RATE_NOISE_STD" "0 \<le> RESPIRATION_RATE_NOISE_STD_INFECTED"
  "0 \<le> RESPIRATION_TO_PULSE_FACTOR_NOISE" "0 \<le> PULSE_RATE_NOISE_STD"
  "0 \<le> PULSE_RATE_NOISE_STD_INFECTED"
  by (simp_all add: SYSTOLIC_PRESSURE_STD_def SYSTOLIC_TO_DIASTOLIC_FACTOR_STD_def
      MEAN_BODY_TEMP_STD_def BODY_TEMP_NOISE_STD_def MEAN_RESPIRATION_RATE_STD_def
      RESPIRATION_RATE_NOISE_STD_def RESPIRATION_RATE_NOISE_STD_INFECTED_def
      RESPIRATION_TO_PULSE_FACTOR_NOISE_def PULSE_RATE_NOISE_STD_def
      PULSE_RATE_NOISE_STD_INFECTED_def)

lemma repeated_sum:
  fixes m :: nat
  shows "m + m = 2 * m" "m + (m + m) = 3 * m" "m + (m + (m + m)) = 4 * m"
    "m + (m + (m + (m + m))) = 5 * m" "m + (m + (m + (m + (m + m)))) = 6 * m"
    "m + (m + (m + (m + (m + (m + m))))) = 7 * m"
    "m + (m + (m + (m + (m + (m + (m + m)))))) = 8 * m"
  by simp_all

lemma generate_healthy_closed:
  assumes "0 \<le> n"
  shows "generate_healthy n g =
    (Inr (cohort_table RESPIRATION_RATE_NOISE RESPIRATION_RATE_NOISE_STD
            PULSE_RATE_NOISE PULSE_RATE_NOISE_STD 0 (nat n) g),
     skip (8 * nat n) g)"
  using assms
  by (simp add: generate_healthy_def Let_def and_then_normal std_nonneg skip_skip
      np_zeros_def np_stack_axis1_ok array_lengths and_then_raise_or pd_DataFrame_def
      raise_or_def cohort_table_def cohort_arrays_def COLUMN_NAMES_def repeated_sum)

lemma generate_infected_closed:
  assumes "0 \<le> n"
  shows "generate_infected n g =
    (Inr (cohort_table RESPIRATION_RATE_NOISE_INFECTED RESPIRATION_RATE_NOISE_STD_INFECTED
            PULSE_RATE_NOISE_INFECTED PULSE_RATE_NOISE_STD_INFECTED 1 (nat n) g),
     skip (8 * nat n) g)"
  using assms
  by (simp add: generate_infected_def Let_def and_then_normal std_nonneg skip_skip
      np_ones_def np_stack_axis1_ok array_lengths and_then_raise_or pd_DataFrame_def
      raise_or_def cohort_table_def cohort_arrays_def COLUMN_NAMES_def repeated_sum)

lemma generate_healthy_negative:
  "n < 0 \<Longrightarrow> generate_healthy n g = (Inl ValueError, g)"
  by (simp add: generate_healthy_def and_then_def np_random_normal_def)

lemma generate_infected_negative:
  "n < 0 \<Longrightarrow> generate_infected n g = (Inl ValueError, g)"
  by (simp add: generate_infected_def and_then_def np_random_normal_def)

lemma nth_cohort_arrays_length:
  "j < 9 \<Longrightarrow> length (cohort_arrays rm rs pm ps lab n g ! j) = n"
  using cohort_arrays_def [of rm rs pm ps lab n g]
  by (auto simp: Let_def array_lengths less_Suc_eq numeral_nat nth_Cons')

lemma length_cohort_arrays: "length (cohort_arrays rm rs pm ps lab n g) = 9"
  by (simp add: cohort_arrays_def Let_def)

lemma column_of_cohort_table:
  assumes "j < 9"
  shows "map (\<lambda>r. r ! j) (df_values (cohort_table rm rs pm ps lab n g)) =
         cohort_arrays rm rs pm ps lab n g ! j"
proof -
  let ?A = "cohort_arrays rm rs pm ps lab n g"
  have "map (\<lambda>r. r ! j) (df_values (cohort_table rm rs pm ps lab n g)) =
        map (\<lambda>i. (?A ! j) ! i) [0..<n]"
    using assms by (simp add: cohort_table_def length_cohort_arrays)
  also have "\<dots> = map ((!) (?A ! j)) [0..<length (?A ! j)]"
    using assms by (simp add: nth_cohort_arrays_length)
  also have "\<dots> = ?A ! j"
    by (rule map_nth)
  finally show ?thesis .
qed

lemma getitem_cohort_table:
  assumes "column_position COLUMN_NAMES name = Some j" "j < 9"
  shows "getitem_values (cohort_table rm rs pm ps lab n g) name =
         Inr (cohort_arrays rm rs pm ps lab n g ! j)"
  using assms column_of_cohort_table [OF assms(2), of rm rs pm ps lab n g]
  by (simp add: getitem_values_def cohort_table_def)

lemma positions:
  "column_position COLUMN_NAMES ''systolic_pressure'' = Some 0"
  "column_position COLUMN_NAMES ''diastolic_pressure'' = Some 1"
  "column_position COLUMN_NAMES ''daily_avg_body_temperature'' = Some 2"
  "column_position COLUMN_NAMES ''body_temperature'' = Some 3"
  "column_position COLUMN_NAMES ''daily_avg_respiration_rate'' = Some 4"
  "column_position COLUMN_NAMES ''respiration_rate'' = Some 5"
  "column_position COLUMN_NAMES ''daily_avg_pulse_rate'' = Some 6"
  "column_position COLUMN_NAMES ''pulse_rate'' = Some 7"
  "column_position COLUMN_NAMES ''infection'' = Some 8"
  by (simp_all add: COLUMN_NAMES_def)

lemma cohort_arrays_nth:
  "cohort_arrays rm rs pm ps lab n g ! 0 =
     normal_draws SYSTOLIC_PRESSURE SYSTOLIC_PRESSURE_STD n g"
  "cohort_arrays rm rs pm ps lab n g ! 1 =
     np_multiply (normal_draws SYSTOLIC_PRESSURE SYSTOLIC_PRESSURE_STD n g)
       (normal_draws SYSTOLIC_TO_DIASTOLIC_FACTOR SYSTOLIC_TO_DIASTOLIC_FACTOR_STD n (skip n g))"
  "cohort_arrays rm rs pm ps lab n g ! 4 =
     normal_draws MEAN_RESPIRATION_RATE MEAN_RESPIRATION_RATE_STD n (skip (4 * n) g)"
  "cohort_arrays rm rs pm ps lab n g ! 5 =
     np_add (normal_draws MEAN_RESPIRATION_RATE MEAN_RESPIRATION_RATE_STD n (skip (4 * n) g))
       (normal_draws rm rs n (skip (5 * n) g))"
  "cohort_arrays rm rs pm ps lab n g ! 6 =
     np_multiply (normal_draws MEAN_RESPIRATION_RATE MEAN_RESPIRATION_RATE_STD n (skip (4 * n) g))
       (normal_draws RESPIRATION_TO_PULSE_FACTOR RESPIRATION_TO_PULSE_FACTOR_NOISE n
          (skip (6 * n) g))"
  "cohort_arrays rm rs pm ps lab n g ! 7 =
     np_add (cohort_arrays rm rs pm ps lab n g ! 6) (normal_draws pm ps n (skip (7 * n) g))"
  "cohort_arrays rm rs pm ps lab n g ! 8 = replicate n lab"
  by (simp_all add: cohort_arrays_def Let_def numeral_nat)

lemma generate_cohort_closed:
  assumes "0 \<le> n"
  shows "generate_cohort n b g =
    (Inr (cohort_table
            (if b then RESPIRATION_RATE_NOISE_INFECTED else RESPIRATION_RATE_NOISE)
            (if b then RESPIRATION_RATE_NOISE_STD_INFECTED else RESPIRATION_RATE_NOISE_STD)
            (if b then PULSE_RATE_NOISE_INFECTED else PULSE_RATE_NOISE)
            (if b then PULSE_RATE_NOISE_STD_INFECTED else PULSE_RATE_NOISE_STD)
            (if b then 1 else 0) (nat n) g),
     skip (8 * nat n) g)"
  using assms by (simp add: generate_cohort_def generate_healthy_closed generate_infected_closed)

lemma nth_np_add: "i < length a \<Longrightarrow> i < length b \<Longrightarrow> np_add a b ! i = a ! i + b ! i"
  by (simp add: np_add_def)

lemma nth_np_multiply:
  "i < length a \<Longrightarrow> i < length b \<Longrightarrow> np_multiply a b ! i = a ! i * b ! i"
  by (simp add: np_multiply_def)

lemma fst_np_random_normal:
  "0 \<le> scale \<Longrightarrow> 0 \<le> n \<Longrightarrow>
   fst (np_random_normal loc scale n g) = Inr (normal_draws loc scale (nat n) g)"
  by (simp add: np_random_normal_def)

text \<open>
  Claim C1. For a count \<open>n \<ge> 0\<close> the call returns a table, and for every record \<open>i\<close> of
  it \<^verbatim>\<open>respiration_rate\<close> is \<^verbatim>\<open>daily_avg_respiration_rate\<close> plus the \<open>i\<close>-th value of
  the sixth call of \<^verbatim>\<open>np.random.normal\<close>, which has the parameters \<open>(1.5, 0.4)\<close> for the
  infected and \<open>(0, 0.5)\<close> for the healthy regime, and \<^verbatim>\<open>pulse_rate\<close> is
  \<^verbatim>\<open>daily_avg_pulse_rate\<close> plus the \<open>i\<close>-th value of the eighth call, with the
  parameters \<open>(10, 5)\<close> and \<open>(0, 4)\<close>.
\<close>

theorem noise_selected_by_flag:
  assumes "0 \<le> n"
  shows "\<exists>df g' avg_resp resp avg_pulse pulse resp_noise pulse_noise.
     generate_cohort n is_infected g = (Inr df, g') \<and>
     getitem_values df ''daily_avg_respiration_rate'' = Inr avg_resp \<and>
     getitem_values df ''respiration_rate'' = Inr resp \<and>
     getitem_values df ''daily_avg_pulse_rate'' = Inr avg_pulse \<and>
     getitem_values df ''pulse_rate'' = Inr pulse \<and>
     fst (np_random_normal (if is_infected then 1.5 else 0) (if is_infected then 0.4 else 0.5)
            n (skip (5 * nat n) g)) = Inr resp_noise \<and>
     fst (np_random_normal (if is_infected then 10 else 0) (if is_infected then 5 else 4)
            n (skip (7 * nat n) g)) = Inr pulse_noise \<and>
     length resp = nat n \<and> length pulse = nat n \<and>
     (\<forall>i<nat n. resp ! i = avg_resp ! i + resp_noise ! i \<and>
                 pulse ! i = avg_pulse ! i + pulse_noise ! i)"
proof -
  let ?rm = "if is_infected then RESPIRATION_RATE_NOISE_INFECTED else RESPIRATION_RATE_NOISE"
  let ?rs = "if is_infected then RESPIRATION_RATE_NOISE_STD_INFECTED
             else RESPIRATION_RATE_NOISE_STD"
  let ?pm = "if is_infected then PULSE_RATE_NOISE_INFECTED else PULSE_RATE_NOISE"
  let ?ps = "if is_infected then PULSE_RATE_NOISE_STD_INFECTED else PULSE_RATE_NOISE_STD"
  let ?A = "cohort_arrays ?rm ?rs ?pm ?ps (if is_infected then 1 else 0) (nat n) g"
  let ?df = "cohort_table ?rm ?rs ?pm ?ps (if is_infected then 1 else 0) (nat n) g"
  let ?rn = "normal_draws ?rm ?rs (nat n) (skip (5 * nat n) g)"
  let ?pn = "normal_draws ?pm ?ps (nat n) (skip (7 * nat n) g)"
  have run: "generate_cohort n is_infected g = (Inr ?df, skip (8 * nat n) g)"
    using assms by (simp add: generate_cohort_closed)
  have cols:
    "getitem_values ?df ''daily_avg_respiration_rate'' = Inr (?A ! 4)"
    "getitem_values ?df ''respiration_rate'' = Inr (?A ! 5)"
    "getitem_values ?df ''daily_avg_pulse_rate'' = Inr (?A ! 6)"
    "getitem_values ?df ''pulse_rate'' = Inr (?A ! 7)"
    by (simp_all add: getitem_cohort_table positions)
  have rn: "fst (np_random_normal (if is_infected then 1.5 else 0)
                  (if is_infected then 0.4 else 0.5) n (skip (5 * nat n) g)) = Inr ?rn"
    using assms
    by (simp add: fst_np_random_normal RESPIRATION_RATE_NOISE_INFECTED_def
        RESPIRATION_RATE_NOISE_def RESPIRATION_RATE_NOISE_STD_INFECTED_def
        RESPIRATION_RATE_NOISE_STD_def)
  have pn: "fst (np_random_normal (if is_infected then 10 else 0)
                  (if is_infected then 5 else 4) n (skip (7 * nat n) g)) = Inr ?pn"
    using assms
    by (simp add: fst_np_random_normal PULSE_RATE_NOISE_INFECTED_def
        PULSE_RATE_NOISE_def PULSE_RATE_NOISE_STD_INFECTED_def PULSE_RATE_NOISE_STD_def)
  have lens: "length (?A ! 5) = nat n" "length (?A ! 7) = nat n"
    by (simp_all add: nth_cohort_arrays_length)
  have rows: "\<forall>i<nat n. (?A ! 5) ! i = (?A ! 4) ! i + ?rn ! i \<and>
                         (?A ! 7) ! i = (?A ! 6) ! i + ?pn ! i"
    by (simp add: cohort_arrays_nth(3,4,6) nth_np_add array_lengths nth_cohort_arrays_length)
  from run cols rn pn lens rows show ?thesis
    by blast
qed

theorem noise_selected_by_flag_witness:
  "(0::int) \<le> 2 \<and>
   (\<exists>df g' avg_resp resp avg_pulse pulse resp_noise pulse_noise.
     generate_cohort 2 True (\<lambda>i. real i) = (Inr df, g') \<and>
     getitem_values df ''daily_avg_respiration_rate'' = Inr avg_resp \<and>
     getitem_values df ''respiration_rate'' = Inr resp \<and>
     getitem_values df ''daily_avg_pulse_rate'' = Inr avg_pulse \<and>
     getitem_values df ''pulse_rate'' = Inr pulse \<and>
     fst (np_random_normal 1.5 0.4 2 (skip 10 (\<lambda>i. real i))) = Inr resp_noise \<and>
     fst (np_random_normal 10 5 2 (skip 14 (\<lambda>i. real i))) = Inr pulse_noise \<and>
     length resp = 2 \<and> length pulse = 2 \<and>
     (\<forall>i<2. resp ! i = avg_resp ! i + resp_noise ! i \<and>
             pulse ! i = avg_pulse ! i + pulse_noise ! i))"
  using noise_selected_by_flag [of 2 True "\<lambda>i. real i"] by simp

text \<open>
  Claim C6. In both regimes, \<^verbatim>\<open>diastolic_pressure\<close> of record \<open>i\<close> is that record's
  \<^verbatim>\<open>systolic_pressure\<close> times the \<open>i\<close>-th value of the second call of
  \<^verbatim>\<open>np.random.normal\<close>, whose parameters are \<open>(2/3, 0.01)\<close>: the column is computed from
  the systolic column, not drawn on its own.
\<close>

theorem diastolic_from_systolic:
  assumes "0 \<le> n"
  shows "\<exists>df g' systolic diastolic ratio.
     generate_cohort n is_infected g = (Inr df, g') \<and>
     getitem_values df ''systolic_pressure'' = Inr systolic \<and>
     getitem_values df ''diastolic_pressure'' = Inr diastolic \<and>
     fst (np_random_normal (2 / 3) 0.01 n (skip (nat n) g)) = Inr ratio \<and>
     length diastolic = nat n \<and>
     (\<forall>i<nat n. diastolic ! i = systolic ! i * ratio ! i)"
proof -
  let ?rm = "if is_infected then RESPIRATION_RATE_NOISE_INFECTED else RESPIRATION_RATE_NOISE"
  let ?rs = "if is_infected then RESPIRATION_RATE_NOISE_STD_INFECTED
             else RESPIRATION_RATE_NOISE_STD"
  let ?pm = "if is_infected then PULSE_RATE_NOISE_INFECTED else PULSE_RATE_NOISE"
  let ?ps = "if is_infected then PULSE_RATE_NOISE_STD_INFECTED else PULSE_RATE_NOISE_STD"
  let ?A = "cohort_arrays ?rm ?rs ?pm ?ps (if is_infected then 1 else 0) (nat n) g"
  let ?df = "cohort_table ?rm ?rs ?pm ?ps (if is_infected then 1 else 0) (nat n) g"
  let ?ratio = "normal_draws SYSTOLIC_TO_DIASTOLIC_FACTOR SYSTOLIC_TO_DIASTOLIC_FACTOR_STD
                  (nat n) (skip (nat n) g)"
  have run: "generate_cohort n is_infected g = (Inr ?df, skip (8 * nat n) g)"
    using assms by (simp add: generate_cohort_closed)
  have cols:
    "getitem_values ?df ''systolic_pressure'' = Inr (?A ! 0)"
    "getitem_values ?df ''diastolic_pressure'' = Inr (?A ! 1)"
    by (simp_all add: getitem_cohort_table positions)
  have ratio: "fst (np_random_normal (2 / 3) 0.01 n (skip (nat n) g)) = Inr ?ratio"
    using assms
    by (simp add: fst_np_random_normal SYSTOLIC_TO_DIASTOLIC_FACTOR_def
        SYSTOLIC_TO_DIASTOLIC_FACTOR_STD_def)
  have len: "length (?A ! 1) = nat n"
    by (simp add: nth_cohort_arrays_length)
  have rows: "\<forall>i<nat n. (?A ! 1) ! i = (?A ! 0) ! i * ?ratio ! i"
    by (simp only: cohort_arrays_nth(1,2)) (simp add: nth_np_multiply array_lengths)
  from run cols ratio len rows show ?thesis
    by blast
qed

theorem diastolic_from_systolic_witness:
  "(0::int) \<le> 2 \<and>
   (\<exists>df g' systolic diastolic ratio.
     generate_cohort 2 False (\<lambda>i. real i) = (Inr df, g') \<and>
     getitem_values df ''systolic_pressure'' = Inr systolic \<and>
     getitem_values df ''diastolic_pressure'' = Inr diastolic \<and>
     fst (np_random_normal (2 / 3) 0.01 2 (skip 2 (\<lambda>i. real i))) = Inr ratio \<and>
     length diastolic = 2 \<and>
     (\<forall>i<2. diastolic ! i = systolic ! i * ratio ! i))"
  using diastolic_from_systolic [of 2 False "\<lambda>i. real i"] by simp

text \<open>
  Claim C7. In both regimes, \<^verbatim>\<open>daily_avg_pulse_rate\<close> of record \<open>i\<close> is that record's
  \<^verbatim>\<open>daily_avg_respiration_rate\<close> times the \<open>i\<close>-th value of the seventh call of
  \<^verbatim>\<open>np.random.normal\<close>, whose parameters are \<open>(5.5, 0.2)\<close>.
\<close>

theorem avg_pulse_from_avg_respiration:
  assumes "0 \<le> n"
  shows "\<exists>df g' avg_resp avg_pulse factor.
     generate_cohort n is_infected g = (Inr df, g') \<and>
     getitem_values df ''daily_avg_respiration_rate'' = Inr avg_resp \<and>
     getitem_values df ''daily_avg_pulse_rate'' = Inr avg_pulse \<and>
     fst (np_random_normal 5.5 0.2 n (skip (6 * nat n) g)) = Inr factor \<and>
     length avg_pulse = nat n \<and>
     (\<forall>i<nat n. avg_pulse ! i = avg_resp ! i * factor ! i)"
proof -
  let ?rm = "if is_infected then RESPIRATION_RATE_NOISE_INFECTED else RESPIRATION_RATE_NOISE"
  let ?rs = "if is_infected then RESPIRATION_RATE_NOISE_STD_INFECTED
             else RESPIRATION_RATE_NOISE_STD"
  let ?pm = "if is_infected then PULSE_RATE_NOISE_INFECTED else PULSE_RATE_NOISE"
  let ?ps = "if is_infected then PULSE_RATE_NOISE_STD_INFECTED else PULSE_RATE_NOISE_STD"
  let ?A = "cohort_arrays ?rm ?rs ?pm ?ps (if is_infected then 1 else 0) (nat n) g"
  let ?df = "cohort_table ?rm ?rs ?pm ?ps (if is_infected then 1 else 0) (nat n) g"
  let ?factor = "normal_draws RESPIRATION_TO_PULSE_FACTOR RESPIRATION_TO_PULSE_FACTOR_NOISE
                  (nat n) (skip (6 * nat n) g)"
  have run: "generate_cohort n is_infected g = (Inr ?df, skip (8 * nat n) g)"
    using assms by (simp add: generate_cohort_closed)
  have cols:
    "getitem_values ?df ''daily_avg_respiration_rate'' = Inr (?A ! 4)"
    "getitem_values ?df ''daily_avg_pulse_rate'' = Inr (?A ! 6)"
    by (simp_all add: getitem_cohort_table positions)
  have factor: "fst (np_random_normal 5.5 0.2 n (skip (6 * nat n) g)) = Inr ?factor"
    using assms
    by (simp add: fst_np_random_normal RESPIRATION_TO_PULSE_FACTOR_def
        RESPIRATION_TO_PULSE_FACTOR_NOISE_def)
  have len: "length (?A ! 6) = nat n"
    by (simp add: nth_cohort_arrays_length)
  have rows: "\<forall>i<nat n. (?A ! 6) ! i = (?A ! 4) ! i * ?factor ! i"
    by (simp only: cohort_arrays_nth(3,5)) (simp add: nth_np_multiply array_lengths)
  from run cols factor len rows show ?thesis
    by blast
qed

theorem avg_pulse_from_avg_respiration_witness:
  "(0::int) \<le> 2 \<and>
   (\<exists>df g' avg_resp avg_pulse factor.
     generate_cohort 2 True (\<lambda>i. real i) = (Inr df, g') \<and>
     getitem_values df ''daily_avg_respiration_rate'' = Inr avg_resp \<and>
     getitem_values df ''daily_avg_pulse_rate'' = Inr avg_pulse \<and>
     fst (np_random_normal 5.5 0.2 2 (skip 12 (\<lambda>i. real i))) = Inr factor \<and>
     length avg_pulse = 2 \<and>
     (\<forall>i<2. avg_pulse ! i = avg_resp ! i * factor ! i))"
  using avg_pulse_from_avg_respiration [of 2 True "\<lambda>i. real i"] by simp

lemma cohort_table_shape:
  "df_columns (cohort_table rm rs pm ps lab n g) = COLUMN_NAMES"
  "df_index (cohort_table rm rs pm ps lab n g) = [0..<n]"
  "length (df_values (cohort_table rm rs pm ps lab n g)) = n"
  "list_all (\<lambda>r. length r = 9) (df_values (cohort_table rm rs pm ps lab n g))"
  by (simp_all add: cohort_table_def list_all_iff length_cohort_arrays)

text \<open>
  Claim C8. For every \<open>n \<ge> 0\<close> and either flag the call returns a table of exactly \<open>n\<close>
  rows; its columns are the nine names in the fixed order, and every row holds nine
  numbers, one per column.
\<close>

theorem cohort_rows_and_schema:
  assumes "0 \<le> n"
  shows "\<exists>df g'.
     generate_cohort n is_infected g = (Inr df, g') \<and>
     length (df_values df) = nat n \<and>
     df_columns df =
       [''systolic_pressure'', ''diastolic_pressure'',
        ''daily_avg_body_temperature'', ''body_temperature'',
        ''daily_avg_respiration_rate'', ''respiration_rate'',
        ''daily_avg_pulse_rate'', ''pulse_rate'', ''infection''] \<and>
     list_all (\<lambda>r. length r = 9) (df_values df)"
  using assms
  by (simp add: generate_cohort_closed cohort_table_shape) (simp add: COLUMN_NAMES_def)

theorem cohort_rows_and_schema_witness:
  "(0::int) \<le> 3 \<and>
   (\<exists>df g'.
     generate_cohort 3 True (\<lambda>i. real i) = (Inr df, g') \<and>
     length (df_values df) = 3 \<and>
     df_columns df =
       [''systolic_pressure'', ''diastolic_pressure'',
        ''daily_avg_body_temperature'', ''body_temperature'',
        ''daily_avg_respiration_rate'', ''respiration_rate'',
        ''daily_avg_pulse_rate'', ''pulse_rate'', ''infection''] \<and>
     list_all (\<lambda>r. length r = 9) (df_values df))"
  using cohort_rows_and_schema [of 3 True "\<lambda>i. real i"] by simp

text \<open>
  Claim C9. Within one call the \<^verbatim>\<open>infection\<close> column is constant: \<open>1\<close> in every row when
  the flag is set, \<open>0\<close> in every row otherwise.
\<close>

theorem label_purity:
  assumes "0 \<le> n"
  shows "\<exists>df g'.
     generate_cohort n is_infected g = (Inr df, g') \<and>
     getitem_values df ''infection'' = Inr (replicate (nat n) (if is_infected then 1 else 0))"
  using assms
  by (simp add: generate_cohort_closed getitem_cohort_table positions cohort_arrays_nth)

theorem label_purity_witness:
  "(0::int) \<le> 3 \<and>
   (\<exists>df g'.
     generate_cohort 3 True (\<lambda>i. real i) = (Inr df, g') \<and>
     getitem_values df ''infection'' = Inr [1, 1, 1])"
  using label_purity [of 3 True "\<lambda>i. real i"] by (simp add: numeral_3_eq_3)

lemma generate_cohort_negative:
  "n < 0 \<Longrightarrow> generate_cohort n b g = (Inl ValueError, g)"
  by (simp add: generate_cohort_def generate_healthy_negative generate_infected_negative)

text \<open>
  Claim C2. With a count of zero the call succeeds and returns the table with no rows and
  the nine columns, leaving the generator as it was; with a negative count it raises
  \<^verbatim>\<open>ValueError\<close> (the specification's \<^verbatim>\<open>InvalidArgument\<close>) at the first call of
  \<^verbatim>\<open>np.random.normal\<close>, before any deviate is taken and without returning a table.
\<close>

theorem zero_and_negative_counts:
  "generate_cohort 0 is_infected g =
     (Inr \<lparr>df_columns =
            [''systolic_pressure'', ''diastolic_pressure'',
             ''daily_avg_body_temperature'', ''body_temperature'',
             ''daily_avg_respiration_rate'', ''respiration_rate'',
             ''daily_avg_pulse_rate'', ''pulse_rate'', ''infection''],
           df_index = [], df_values = []\<rparr>, g) \<and>
   (n < 0 \<longrightarrow> generate_cohort n is_infected g = (Inl ValueError, g))"
  using generate_cohort_closed [of 0 is_infected g]
  by (simp add: generate_cohort_negative cohort_table_def COLUMN_NAMES_def skip_0)

theorem zero_and_negative_counts_witness:
  "generate_cohort 0 False (\<lambda>i. real i) =
     (Inr \<lparr>df_columns =
            [''systolic_pressure'', ''diastolic_pressure'',
             ''daily_avg_body_temperature'', ''body_temperature'',
             ''daily_avg_respiration_rate'', ''respiration_rate'',
             ''daily_avg_pulse_rate'', ''pulse_rate'', ''infection''],
           df_index = [], df_values = []\<rparr>, \<lambda>i. real i) \<and>
   (-1::int) < 0 \<and> generate_cohort (-1) False (\<lambda>i. real i) = (Inl ValueError, \<lambda>i. real i)"
  using zero_and_negative_counts [of False "\<lambda>i. real i" "-1"] by simp

subsection \<open>The dataset\<close>

lemma drop_last_cell:
  assumes "length r = 9"
  shows "map snd (filter (\<lambda>(c, v). c \<noteq> ''infection'') (zip COLUMN_NAMES r)) = butlast r"
proof -
  from assms obtain a b c d e f g h i where "r = [a, b, c, d, e, f, g, h, i]"
    by (auto simp: numeral_nat length_Suc_conv)
  then show ?thesis
    by (simp add: COLUMN_NAMES_def)
qed

lemma drop_last_cells:
  "list_all (\<lambda>r. length r = 9) rs \<Longrightarrow>
   map (\<lambda>r. map snd (filter (\<lambda>(c, v). c \<noteq> ''infection'') (zip COLUMN_NAMES r))) rs =
   map butlast rs"
  by (simp add: list_all_iff drop_last_cell)

lemma feature_names:
  "filter (\<lambda>c. c \<noteq> ''infection'') COLUMN_NAMES = butlast COLUMN_NAMES"
  "''infection'' \<in> set COLUMN_NAMES"
  by (simp_all add: COLUMN_NAMES_def)

lemma label_column_of_cohort_table:
  "map (\<lambda>r. r ! 8) (df_values (cohort_table rm rs pm ps lab n g)) = replicate n lab"
  using column_of_cohort_table [of 8 rm rs pm ps lab n g] by (simp add: cohort_arrays_nth)

lemma build_dataset_closed:
  assumes "0 \<le> nh" "0 \<le> ni"
  shows "build_dataset nh ni g =
    (Inr (\<lparr>df_columns = butlast COLUMN_NAMES,
           df_index = [0..<nat nh + nat ni],
           df_values = map butlast (df_values (healthy_table (nat nh) g) @
                                    df_values (infected_table (nat ni) (skip (8 * nat nh) g)))\<rparr>,
          replicate (nat nh) 0 @ replicate (nat ni) 1),
     skip (8 * nat ni) (skip (8 * nat nh) g))"
proof -
  let ?H = "healthy_table (nat nh) g"
  let ?I = "infected_table (nat ni) (skip (8 * nat nh) g)"
  let ?both = "\<lparr>df_columns = COLUMN_NAMES, df_index = [0..<nat nh] @ [0..<nat ni],
                 df_values = df_values ?H @ df_values ?I\<rparr>"
  have gh: "generate_healthy nh g = (Inr ?H, skip (8 * nat nh) g)"
    using assms(1) by (simp add: generate_healthy_closed healthy_table_def)
  have gi: "generate_infected ni (skip (8 * nat nh) g) =
              (Inr ?I, skip (8 * nat ni) (skip (8 * nat nh) g))"
    using assms(2) by (simp add: generate_infected_closed infected_table_def)
  have cat: "pd_concat ?H ?I = Inr ?both"
    by (simp add: pd_concat_def healthy_table_def infected_table_def cohort_table_shape)
  have nine: "list_all (\<lambda>r. length r = 9) (df_values ?H @ df_values ?I)"
    by (simp add: healthy_table_def infected_table_def cohort_table_shape)
  have len: "length (df_values ?H @ df_values ?I) = nat nh + nat ni"
    by (simp add: healthy_table_def infected_table_def cohort_table_shape)
  have drop: "drop_column (reset_index_drop ?both) ''infection'' =
      Inr \<lparr>df_columns = butlast COLUMN_NAMES, df_index = [0..<nat nh + nat ni],
           df_values = map butlast (df_values ?H @ df_values ?I)\<rparr>"
    using drop_last_cells [OF nine] len
    by (simp add: drop_column_def reset_index_drop_def feature_names)
  have lab: "getitem_values (reset_index_drop ?both) ''infection'' =
      Inr (replicate (nat nh) 0 @ replicate (nat ni) 1)"
    by (simp add: getitem_values_def reset_index_drop_def positions healthy_table_def
        infected_table_def label_column_of_cohort_table)
  show ?thesis
    unfolding build_dataset_def
    by (simp add: and_then_def gh gi cat raise_or_def Let_def drop lab)
qed

lemma butlast_names:
  "butlast COLUMN_NAMES =
     [''systolic_pressure'', ''diastolic_pressure'',
      ''daily_avg_body_temperature'', ''body_temperature'',
      ''daily_avg_respiration_rate'', ''respiration_rate'',
      ''daily_avg_pulse_rate'', ''pulse_rate'']"
  by (simp add: COLUMN_NAMES_def)

text \<open>
  Claim C3. Building with 900 healthy and 100 infected records succeeds; the feature
  table has 1000 rows and the eight columns other than \<^verbatim>\<open>infection\<close>, the label
  vector is 900 zeros followed by 100 ones, and the rows of the feature table are the
  rows of the healthy cohort, in their order, followed by the rows of the infected
  cohort, in their order, each without its label cell.
\<close>

theorem build_dataset_900_100:
  "\<exists>healthy infected g1 g2 features labels.
     generate_healthy 900 g = (Inr healthy, g1) \<and>
     generate_infected 100 g1 = (Inr infected, g2) \<and>
     build_dataset 900 100 g = (Inr (features, labels), g2) \<and>
     length (df_values features) = 1000 \<and>
     df_columns features =
       [''systolic_pressure'', ''diastolic_pressure'',
        ''daily_avg_body_temperature'', ''body_temperature'',
        ''daily_avg_respiration_rate'', ''respiration_rate'',
        ''daily_avg_pulse_rate'', ''pulse_rate''] \<and>
     list_all (\<lambda>r. length r = 8) (df_values features) \<and>
     labels = replicate 900 0 @ replicate 100 1 \<and>
     length (df_values healthy) = 900 \<and> length (df_values infected) = 100 \<and>
     df_values features = map butlast (df_values healthy @ df_values infected)"
proof -
  let ?H = "healthy_table 900 g"
  let ?I = "infected_table 100 (skip (8 * 900) g)"
  have gh: "generate_healthy 900 g = (Inr ?H, skip (8 * 900) g)"
    using generate_healthy_closed [of 900 g] by (simp add: healthy_table_def)
  have gi: "generate_infected 100 (skip (8 * 900) g) =
              (Inr ?I, skip (8 * 100) (skip (8 * 900) g))"
    using generate_infected_closed [of 100 "skip (8 * 900) g"] by (simp add: infected_table_def)
  have lens: "length (df_values ?H) = 900" "length (df_values ?I) = 100"
    by (simp_all add: healthy_table_def infected_table_def cohort_table_shape)
  have nine: "list_all (\<lambda>r. length r = 9) (df_values ?H @ df_values ?I)"
    by (simp add: healthy_table_def infected_table_def cohort_table_shape)
  have eight: "list_all (\<lambda>r. length r = 8) (map butlast (df_values ?H @ df_values ?I))"
    using nine by (auto simp: list_all_iff)
  have bd: "build_dataset 900 100 g =
    (Inr (\<lparr>df_columns = butlast COLUMN_NAMES, df_index = [0..<900 + 100],
           df_values = map butlast (df_values ?H @ df_values ?I)\<rparr>,
          replicate 900 0 @ replicate 100 1),
     skip (8 * 100) (skip (8 * 900) g))"
    using build_dataset_closed [of 900 100 g] by simp
  show ?thesis
    apply (rule exI [of _ ?H], rule exI [of _ ?I])
    apply (rule exI [of _ "skip (8 * 900) g"])
    apply (rule exI [of _ "skip (8 * 100) (skip (8 * 900) g)"])
    apply (simp only: gh gi bd)
    using eight lens
    apply (simp add: butlast_names)
    done
qed

theorem build_dataset_900_100_witness:
  "\<exists>healthy infected g1 g2 features labels.
     generate_healthy 900 (\<lambda>i. real i) = (Inr healthy, g1) \<and>
     generate_infected 100 g1 = (Inr infected, g2) \<and>
     build_dataset 900 100 (\<lambda>i. real i) = (Inr (features, labels), g2) \<and>
     length (df_values features) = 1000 \<and>
     df_columns features =
       [''systolic_pressure'', ''diastolic_pressure'',
        ''daily_avg_body_temperature'', ''body_temperature'',
        ''daily_avg_respiration_rate'', ''respiration_rate'',
        ''daily_avg_pulse_rate'', ''pulse_rate''] \<and>
     list_all (\<lambda>r. length r = 8) (df_values features) \<and>
     labels = replicate 900 0 @ replicate 100 1 \<and>
     length (df_values healthy) = 900 \<and> length (df_values infected) = 100 \<and>
     df_values features = map butlast (df_values healthy @ df_values infected)"
  by (rule build_dataset_900_100)

lemma normal_draws_agree:
  assumes "\<forall>i<k + n. g i = g' i"
  shows "normal_draws loc scale n (skip k g) = normal_draws loc scale n (skip k g')"
  using assms by (simp add: normal_draws_def skip_def)

lemma cohort_arrays_agree:
  assumes "\<forall>i<k + 8 * n. g i = g' i"
  shows "cohort_arrays rm rs pm ps lab n (skip k g) = cohort_arrays rm rs pm ps lab n (skip k g')"
proof -
  have seg: "normal_draws loc scale n (skip (j * n) (skip k g)) =
             normal_draws loc scale n (skip (j * n) (skip k g'))" if "j < 8" for j loc scale
  proof -
    have le: "j * n + n \<le> 8 * n"
      using mult_le_mono1 [of "Suc j" 8 n] that by simp
    have "\<forall>i<(j * n + k) + n. g i = g' i"
    proof (intro allI impI)
      fix i
      assume "i < j * n + k + n"
      with le have "i < k + 8 * n"
        by linarith
      with assms show "g i = g' i"
        by blast
    qed
    then show ?thesis
      by (simp only: skip_skip normal_draws_agree)
  qed
  have first: "normal_draws loc scale n (skip k g) = normal_draws loc scale n (skip k g')"
    for loc scale
    using seg [of 0 loc scale] by (simp add: skip_0)
  have second: "normal_draws loc scale n (skip n (skip k g)) =
                normal_draws loc scale n (skip n (skip k g'))" for loc scale
    using seg [of 1 loc scale] by simp
  show ?thesis
    unfolding cohort_arrays_def Let_def
    by (simp only: first second seg [of 2] seg [of 3] seg [of 4] seg [of 5] seg [of 6] seg [of 7]
        simp_thms)
qed

lemma cohort_table_agree:
  assumes "\<forall>i<k + 8 * n. g i = g' i"
  shows "cohort_table rm rs pm ps lab n (skip k g) = cohort_table rm rs pm ps lab n (skip k g')"
  by (simp only: cohort_table_def cohort_arrays_agree [OF assms])

lemma build_dataset_agree:
  assumes "\<forall>i<8 * (nat nh + nat ni). g i = g' i"
  shows "fst (build_dataset nh ni g) = fst (build_dataset nh ni g')"
proof (cases "0 \<le> nh")
  case False
  then show ?thesis
    by (simp add: build_dataset_def and_then_def generate_healthy_negative)
next
  case nh: True
  show ?thesis
  proof (cases "0 \<le> ni")
    case False
    then show ?thesis
      using nh
      by (simp add: build_dataset_def and_then_def generate_healthy_closed
          generate_infected_negative)
  next
    case ni: True
    have "\<forall>i<0 + 8 * nat nh. g i = g' i"
      using assms by simp
    then have h: "healthy_table (nat nh) (skip 0 g) = healthy_table (nat nh) (skip 0 g')"
      unfolding healthy_table_def by (rule cohort_table_agree)
    have "\<forall>i<8 * nat nh + 8 * nat ni. g i = g' i"
      using assms by (simp add: distrib_left)
    then have i: "infected_table (nat ni) (skip (8 * nat nh) g) =
                  infected_table (nat ni) (skip (8 * nat nh) g')"
      unfolding infected_table_def by (rule cohort_table_agree)
    from h i show ?thesis
      using nh ni by (simp add: build_dataset_closed skip_0)
  qed
qed

text \<open>
  Claim C5. Seeding and then building gives the same result whatever the state of the
  generator was before the seeding, so the result is a function of the seed and the two
  counts alone; and two generator states that agree on the first \<open>8 * (n_healthy +
  n_infected)\<close> deviates give the same tables (or the same exception).
\<close>

theorem dataset_determined_by_seed:
  "seeded_dataset stream_of s nh ni g = seeded_dataset stream_of s nh ni g' \<and>
   ((\<forall>i<8 * (nat nh + nat ni). g i = g' i) \<longrightarrow>
      fst (build_dataset nh ni g) = fst (build_dataset nh ni g'))"
  by (simp add: seeded_dataset_def np_random_seed_def and_then_def build_dataset_agree)

theorem dataset_determined_by_seed_witness:
  "seeded_dataset (\<lambda>s i. real (s + i)) 0 1 1 (\<lambda>i. 0) =
     seeded_dataset (\<lambda>s i. real (s + i)) 0 1 1 (\<lambda>i. 1) \<and>
   fst (build_dataset 1 1 (\<lambda>i. real i)) =
     fst (build_dataset 1 1 (\<lambda>i. if i < 16 then real i else 0))"
proof -
  have h: "\<forall>i<8 * (nat 1 + nat 1). real i = (if i < 16 then real i else 0)"
    by simp
  have a: "seeded_dataset (\<lambda>s i. real (s + i)) 0 1 1 (\<lambda>i. 0) =
           seeded_dataset (\<lambda>s i. real (s + i)) 0 1 1 (\<lambda>i. 1)"
    using dataset_determined_by_seed [of "\<lambda>s i. real (s + i)" 0 1 1 "\<lambda>i. 0" "\<lambda>i. 1"]
    by (rule conjunct1)
  have b: "fst (build_dataset 1 1 (\<lambda>i. real i)) =
           fst (build_dataset 1 1 (\<lambda>i. if i < 16 then real i else 0))"
    using dataset_determined_by_seed
      [of "\<lambda>s i. real (s + i)" 0 1 1 "\<lambda>i. real i" "\<lambda>i. if i < 16 then real i else 0"] h
    by blast
  from a b show ?thesis by blast
qed

lemmas generator_constants =
  SYSTOLIC_PRESSURE_def SYSTOLIC_PRESSURE_STD_def SYSTOLIC_TO_DIASTOLIC_FACTOR_def
  SYSTOLIC_TO_DIASTOLIC_FACTOR_STD_def MEAN_BODY_TEMP_def MEAN_BODY_TEMP_STD_def
  BODY_TEMP_NOISE_def BODY_TEMP_NOISE_STD_def MEAN_RESPIRATION_RATE_def
  MEAN_RESPIRATION_RATE_STD_def RESPIRATION_RATE_NOISE_def RESPIRATION_RATE_NOISE_STD_def
  RESPIRATION_RATE_NOISE_INFECTED_def RESPIRATION_RATE_NOISE_STD_INFECTED_def
  RESPIRATION_TO_PULSE_FACTOR_def RESPIRATION_TO_PULSE_FACTOR_NOISE_def
  PULSE_RATE_NOISE_def PULSE_RATE_NOISE_STD_def PULSE_RATE_NOISE_INFECTED_def
  PULSE_RATE_NOISE_STD_INFECTED_def

lemma healthy_is_regime: "generate_healthy n = generate_with_regime (regime_of False) n"
  by (simp add: generate_healthy_def generate_with_regime_def regime_of_def Let_def
      generator_constants np_zeros_def np_full_def)

lemma infected_is_regime: "generate_infected n = generate_with_regime (regime_of True) n"
  by (simp add: generate_infected_def generate_with_regime_def regime_of_def Let_def
      generator_constants np_ones_def np_full_def)

lemma shared_columns:
  assumes "j < 5 \<or> j = 6"
  shows "cohort_arrays rm rs pm ps lab n g ! j = cohort_arrays rm' rs' pm' ps' lab' n g ! j"
proof -
  from assms have "j = 0 \<or> j = 1 \<or> j = 2 \<or> j = 3 \<or> j = 4 \<or> j = 6"
    by arith
  then show ?thesis
    by (auto simp: cohort_arrays_def Let_def numeral_nat)
qed

text \<open>
  Claim C10. Each of the two routines is the one parametrised routine at its regime, and
  the regimes differ in the respiration noise, the pulse noise and the label only.
  Started in the same generator state with \<open>n \<ge> 0\<close>, both leave the generator in the
  same state, eight times \<open>n\<close> deviates further, and their tables agree in the six
  columns that do not depend on the regime; with \<open>n < 0\<close> both raise the same exception.
\<close>

theorem routines_differ_in_regime_only:
  "generate_healthy n = generate_with_regime (regime_of False) n \<and>
   generate_infected n = generate_with_regime (regime_of True) n \<and>
   (0 \<le> n \<longrightarrow>
      (\<exists>h f. generate_healthy n g = (Inr h, skip (8 * nat n) g) \<and>
             generate_infected n g = (Inr f, skip (8 * nat n) g) \<and>
             df_columns h = df_columns f \<and> df_index h = df_index f \<and>
             list_all (\<lambda>c. \<exists>v. getitem_values h c = Inr v \<and> getitem_values f c = Inr v)
               [''systolic_pressure'', ''diastolic_pressure'',
                ''daily_avg_body_temperature'', ''body_temperature'',
                ''daily_avg_respiration_rate'', ''daily_avg_pulse_rate''])) \<and>
   (n < 0 \<longrightarrow> generate_healthy n g = (Inl ValueError, g) \<and>
              generate_infected n g = (Inl ValueError, g))"
proof (intro conjI impI)
  show "generate_healthy n = generate_with_regime (regime_of False) n"
    by (rule healthy_is_regime)
  show "generate_infected n = generate_with_regime (regime_of True) n"
    by (rule infected_is_regime)
next
  assume "n < 0"
  then show "generate_healthy n g = (Inl ValueError, g)"
    and "generate_infected n g = (Inl ValueError, g)"
    by (simp_all add: generate_healthy_negative generate_infected_negative)
next
  assume n: "0 \<le> n"
  let ?h = "healthy_table (nat n) g"
  let ?f = "infected_table (nat n) g"
  have cols: "getitem_values ?h c = Inr (cohort_arrays RESPIRATION_RATE_NOISE
                 RESPIRATION_RATE_NOISE_STD PULSE_RATE_NOISE PULSE_RATE_NOISE_STD 0 (nat n) g ! j)
            \<and> getitem_values ?f c = Inr (cohort_arrays RESPIRATION_RATE_NOISE
                 RESPIRATION_RATE_NOISE_STD PULSE_RATE_NOISE PULSE_RATE_NOISE_STD 0 (nat n) g ! j)"
    if "column_position COLUMN_NAMES c = Some j" "j < 5 \<or> j = 6" for c j
  proof -
    from that(2) have "j < 9" by arith
    with that show ?thesis
      unfolding healthy_table_def infected_table_def
      by (simp add: getitem_cohort_table shared_columns [of j _ _ _ _ 1 "nat n" g
            RESPIRATION_RATE_NOISE RESPIRATION_RATE_NOISE_STD PULSE_RATE_NOISE
            PULSE_RATE_NOISE_STD 0])
  qed
  have six: "list_all (\<lambda>c. \<exists>v. getitem_values ?h c = Inr v \<and> getitem_values ?f c = Inr v)
               [''systolic_pressure'', ''diastolic_pressure'',
                ''daily_avg_body_temperature'', ''body_temperature'',
                ''daily_avg_respiration_rate'', ''daily_avg_pulse_rate'']"
    using cols [OF positions(1)] cols [OF positions(2)] cols [OF positions(3)]
      cols [OF positions(4)] cols [OF positions(5)] cols [OF positions(7)]
    by simp
  have "generate_healthy n g = (Inr ?h, skip (8 * nat n) g)"
    "generate_infected n g = (Inr ?f, skip (8 * nat n) g)"
    "df_columns ?h = df_columns ?f" "df_index ?h = df_index ?f"
    using n
    by (simp_all add: generate_healthy_closed generate_infected_closed healthy_table_def
        infected_table_def cohort_table_shape)
  with six
  show "\<exists>h f. generate_healthy n g = (Inr h, skip (8 * nat n) g) \<and>
             generate_infected n g = (Inr f, skip (8 * nat n) g) \<and>
             df_columns h = df_columns f \<and> df_index h = df_index f \<and>
             list_all (\<lambda>c. \<exists>v. getitem_values h c = Inr v \<and> getitem_values f c = Inr v)
               [''systolic_pressure'', ''diastolic_pressure'',
                ''daily_avg_body_temperature'', ''body_temperature'',
                ''daily_avg_respiration_rate'', ''daily_avg_pulse_rate'']"
    by blast
qed

theorem routines_differ_in_regime_only_witness:
  "(0::int) \<le> 2 \<and>
   (\<exists>h f. generate_healthy 2 (\<lambda>i. real i) = (Inr h, skip (8 * nat 2) (\<lambda>i. real i)) \<and>
          generate_infected 2 (\<lambda>i. real i) = (Inr f, skip (8 * nat 2) (\<lambda>i. real i)) \<and>
          df_columns h = df_columns f \<and> df_index h = df_index f \<and>
          list_all (\<lambda>c. \<exists>v. getitem_values h c = Inr v \<and> getitem_values f c = Inr v)
            [''systolic_pressure'', ''diastolic_pressure'',
             ''daily_avg_body_temperature'', ''body_temperature'',
             ''daily_avg_respiration_rate'', ''daily_avg_pulse_rate'']) \<and>
   (-1::int) < 0 \<and>
   generate_healthy (-1) (\<lambda>i. real i) = (Inl ValueError, \<lambda>i. real i) \<and>
   generate_infected (-1) (\<lambda>i. real i) = (Inl ValueError, \<lambda>i. real i)"
proof -
  have a: "(0::int) \<le> 2" and b: "(-1::int) < 0"
    by simp_all
  note at_two = routines_differ_in_regime_only
    [of 2 "\<lambda>i. real i", THEN conjunct2, THEN conjunct2, THEN conjunct1, THEN mp, OF a]
  note at_minus_one = routines_differ_in_regime_only
    [of "-1" "\<lambda>i. real i", THEN conjunct2, THEN conjunct2, THEN conjunct2, THEN mp, OF b]
  from a b at_two at_minus_one show ?thesis
    by (intro conjI) (elim conjE, assumption)+
qed

subsection \<open>The split\<close>

lemma test_count_le:
  assumes "0 \<le> f" "f \<le> 1"
  shows "nat (round (real n * f)) \<le> n"
proof -
  have "real n * f \<le> real n"
    using assms by (simp add: mult_left_le)
  then have "round (real n * f) \<le> round (real n)"
    by (rule round_mono)
  then show ?thesis
    by simp
qed

lemma shuffled_positions:
  assumes "mset order = mset [0..<n]" "k \<le> n"
  shows "length (take k order) = k" "length (drop k order) = n - k"
    "mset (drop k order @ take k order) = mset [0..<n]"
    "set (drop k order) \<inter> set (take k order) = {}"
proof -
  from assms(1) have len: "length order = n"
    by (metis length_upt size_mset diff_zero)
  from assms(1) have dist: "distinct order"
    by (metis distinct_upt mset_eq_imp_distinct_iff)
  show "length (take k order) = k"
    using len assms(2) by simp
  show "length (drop k order) = n - k"
    using len by simp
  have "mset (drop k order @ take k order) = mset (take k order @ drop k order)"
    by (simp only: mset_append add.commute)
  then show "mset (drop k order @ take k order) = mset [0..<n]"
    using assms(1) by simp
  show "set (drop k order) \<inter> set (take k order) = {}"
    using dist set_take_disj_set_drop_if_distinct [of order k k] by auto
qed

text \<open>
  Claim C4. When the seeded shuffle returns a permutation of the row positions, the
  labels are as many as the rows and the fraction lies between 0 and 1, the split
  succeeds: the positions of the training and the test rows together are every position
  exactly once, no position is in both, the test set has \<open>round (n * test_fraction)\<close>
  rows and the training set the rest, every returned row carries the features, the index
  label and the label of one input row, the result depends on the shuffle only through
  its value at this seed and this number of rows, and 1000 rows at a fraction of 0.2 are
  split into 800 and 200.
\<close>

theorem split_partitions_rows:
  assumes "mset (shuffle seed (length (df_values features))) =
           mset [0..<length (df_values features)]"
    and "length labels = length (df_values features)"
    and "0 \<le> test_fraction" and "test_fraction \<le> 1"
  shows "\<exists>train_idx test_idx X_train X_test y_train y_test.
     split_train_test shuffle features labels test_fraction seed =
       Inr (X_train, X_test, y_train, y_test) \<and>
     mset (train_idx @ test_idx) = mset [0..<length (df_values features)] \<and>
     set train_idx \<inter> set test_idx = {} \<and>
     length test_idx = nat (round (real (length (df_values features)) * test_fraction)) \<and>
     length train_idx =
       length (df_values features) -
       nat (round (real (length (df_values features)) * test_fraction)) \<and>
     length (df_values X_train) = length train_idx \<and> length y_train = length train_idx \<and>
     length (df_values X_test) = length test_idx \<and> length y_test = length test_idx \<and>
     (\<forall>k<length train_idx.
        df_values X_train ! k = df_values features ! (train_idx ! k) \<and>
        df_index X_train ! k = df_index features ! (train_idx ! k) \<and>
        y_train ! k = labels ! (train_idx ! k)) \<and>
     (\<forall>k<length test_idx.
        df_values X_test ! k = df_values features ! (test_idx ! k) \<and>
        df_index X_test ! k = df_index features ! (test_idx ! k) \<and>
        y_test ! k = labels ! (test_idx ! k)) \<and>
     (length (df_values features) = 1000 \<and> test_fraction = 0.2 \<longrightarrow>
        length (df_values X_test) = 200 \<and> length (df_values X_train) = 800) \<and>
     (\<forall>shuffle'. shuffle' seed (length (df_values features)) =
                   shuffle seed (length (df_values features)) \<longrightarrow>
        split_train_test shuffle' features labels test_fraction seed =
        split_train_test shuffle features labels test_fraction seed)"
proof -
  let ?n = "length (df_values features)"
  let ?k = "nat (round (real ?n * test_fraction))"
  let ?order = "shuffle seed ?n"
  let ?test = "take ?k ?order"
  let ?train = "drop ?k ?order"
  have k: "?k \<le> ?n"
    using assms(3,4) by (rule test_count_le)
  note parts = shuffled_positions [OF assms(1) k]
  have run: "split_train_test shuffle features labels test_fraction seed =
      Inr (take_rows features ?train, take_rows features ?test,
           map (\<lambda>k. labels ! k) ?train, map (\<lambda>k. labels ! k) ?test)"
    using assms(2,3,4) by (simp add: split_train_test_def Let_def)
  have lens: "length (df_values (take_rows features ?train)) = length ?train"
    "length (map (\<lambda>k. labels ! k) ?train) = length ?train"
    "length (df_values (take_rows features ?test)) = length ?test"
    "length (map (\<lambda>k. labels ! k) ?test) = length ?test"
    by (simp_all add: take_rows_def)
  have travel_train: "\<forall>j<length ?train.
        df_values (take_rows features ?train) ! j = df_values features ! (?train ! j) \<and>
        df_index (take_rows features ?train) ! j = df_index features ! (?train ! j) \<and>
        map (\<lambda>k. labels ! k) ?train ! j = labels ! (?train ! j)"
    by (simp add: take_rows_def)
  have travel_test: "\<forall>j<length ?test.
        df_values (take_rows features ?test) ! j = df_values features ! (?test ! j) \<and>
        df_index (take_rows features ?test) ! j = df_index features ! (?test ! j) \<and>
        map (\<lambda>k. labels ! k) ?test ! j = labels ! (?test ! j)"
    by (simp add: take_rows_def)
  have ref: "?n = 1000 \<and> test_fraction = 0.2 \<longrightarrow>
        length (df_values (take_rows features ?test)) = 200 \<and>
        length (df_values (take_rows features ?train)) = 800"
  proof
    assume a: "?n = 1000 \<and> test_fraction = 0.2"
    then have n1000: "?n = 1000" and fifth: "test_fraction = 0.2"
      by blast+
    have "real ?n * test_fraction = 200"
      unfolding n1000 fifth by simp
    then have "?k = 200"
      by simp
    with parts(1,2) n1000 lens(1,3) show "length (df_values (take_rows features ?test)) = 200 \<and>
        length (df_values (take_rows features ?train)) = 800"
      by simp
  qed
  have det: "\<forall>shuffle'. shuffle' seed ?n = ?order \<longrightarrow>
        split_train_test shuffle' features labels test_fraction seed =
        split_train_test shuffle features labels test_fraction seed"
    by (simp add: split_train_test_def Let_def)
  show ?thesis
    apply (rule exI [of _ ?train], rule exI [of _ ?test])
    apply (rule exI [of _ "take_rows features ?train"])
    apply (rule exI [of _ "take_rows features ?test"])
    apply (rule exI [of _ "map (\<lambda>k. labels ! k) ?train"])
    apply (rule exI [of _ "map (\<lambda>k. labels ! k) ?test"])
    apply (intro conjI run parts lens travel_train travel_test ref det)
    done
qed

theorem split_partitions_rows_witness:
  "mset (rev [0..<length (df_values thousand_rows)]) =
     mset [0..<length (df_values thousand_rows)] \<and>
   length (replicate 1000 (0::real)) = length (df_values thousand_rows) \<and>
   (0::real) \<le> 0.2 \<and> (0.2::real) \<le> 1 \<and>
   (\<exists>X_train X_test y_train y_test.
      split_train_test (\<lambda>s n. rev [0..<n]) thousand_rows (replicate 1000 0) 0.2 0 =
        Inr (X_train, X_test, y_train, y_test) \<and>
      length (df_values X_test) = 200 \<and> length (df_values X_train) = 800)"
proof -
  have h1: "mset ((\<lambda>s n. rev [0..<n]) (0::nat) (length (df_values thousand_rows))) =
            mset [0..<length (df_values thousand_rows)]"
    by simp
  have h2: "length (replicate 1000 (0::real)) = length (df_values thousand_rows)"
    by (simp add: thousand_rows_def)
  have h3: "(0::real) \<le> 0.2" and h4: "(0.2::real) \<le> 1"
    by simp_all
  have n: "length (df_values thousand_rows) = 1000"
    by (simp add: thousand_rows_def)
  from split_partitions_rows
    [of "\<lambda>s n. rev [0..<n]" 0 thousand_rows "replicate 1000 0" "0.2", OF h1 h2 h3 h4] n
  have "\<exists>X_train X_test y_train y_test.
      split_train_test (\<lambda>s n. rev [0..<n]) thousand_rows (replicate 1000 0) 0.2 0 =
        Inr (X_train, X_test, y_train, y_test) \<and>
      length (df_values X_test) = 200 \<and> length (df_values X_train) = 800"
    by blast
  with h1 h2 h3 h4 show ?thesis
    by simp
qed

end
